theory Spec2Isabelle
  imports Main "HOL-Library.Word"
begin

section \<open>Values held by the configuration registry\<close>

text \<open>
  The registry stores Go values of type \<^verbatim>\<open>interface{}\<close> in nested
  \<^verbatim>\<open>map[string]interface{}\<close> maps. A Go map value is either \<^verbatim>\<open>nil\<close> or a
  reference to a table: reading a nil map finds no key, assigning into it panics. The
  model keeps that difference: a tree is an optional finite map, \<open>None\<close> being the nil
  map. The dynamic types the code inspects get a constructor each; every other dynamic
  type is \<open>VOther\<close>, carrying the name that \<^verbatim>\<open>%T\<close> prints and its reflect kind.
  A \<^verbatim>\<open>float64\<close> is its 64-bit pattern; nothing below computes with it.

  Maps are mutated in place by the code. The model passes the updated tree back to the
  caller; it describes trees in which no map object is reachable along two different
  paths.
\<close>

datatype kind =
    KInvalid | KBool | KInt | KInt8 | KInt16 | KInt32 | KInt64
  | KUint | KUint8 | KUint16 | KUint32 | KUint64 | KUintptr
  | KFloat32 | KFloat64 | KComplex64 | KComplex128
  | KArray | KChan | KFunc | KInterface | KMap | KPointer | KSlice | KString
  | KStruct | KUnsafePointer

datatype val =
    VNil
  | VBool bool
  | VInt int
  | VFloat "64 word"
  | VString string
  | VStrings "string list"
  | VSlice "val list"
  | VMap "(string \<Rightarrow> val option) option"
  | VOther string kind

type_synonym tree = "(string \<Rightarrow> val option) option"

datatype error = Error string | Panic string

text \<open>\<^verbatim>\<open>v, ok := m[k]\<close>: a nil map has no keys.\<close>

definition map_index :: "tree \<Rightarrow> string \<Rightarrow> val option" where
  "map_index m k = (case m of None \<Rightarrow> None | Some f \<Rightarrow> f k)"

text \<open>\<^verbatim>\<open>m[k] = v\<close>: a run-time panic on a nil map.\<close>

definition map_assign :: "tree \<Rightarrow> string \<Rightarrow> val \<Rightarrow> error + tree" where
  "map_assign m k v =
     (case m of
        None \<Rightarrow> Inl (Panic ''assignment to entry in nil map'')
      | Some f \<Rightarrow> Inr (Some (f(k \<mapsto> v))))"

text \<open>
  \<^verbatim>\<open>next, ok := current[part].(map[string]interface{})\<close>: the assertion holds
  exactly for a value of that dynamic type, a nil map of that type included; a missing
  key reads as the nil interface and fails it.
\<close>

fun assert_map :: "val option \<Rightarrow> tree option" where
  "assert_map (Some (VMap m)) = Some m"
| "assert_map _ = None"

section \<open>Strings\<close>

text \<open>
  Go strings are byte sequences, as \<open>string\<close> is. \<^verbatim>\<open>strings.Split(s, sep)\<close> is
  only called with a one-byte separator (\<^verbatim>\<open>"."\<close> or \<^verbatim>\<open>","\<close>); it always
  returns at least one part. \<^verbatim>\<open>strings.Join\<close> puts the separator between the parts.
\<close>

fun Split :: "string \<Rightarrow> char \<Rightarrow> string list" where
  "Split [] sep = [[]]"
| "Split (c # cs) sep =
     (if c = sep then [] # Split cs sep
      else (case Split cs sep of
              part # parts \<Rightarrow> (c # part) # parts
            | [] \<Rightarrow> [[c]]))"

fun Join :: "string list \<Rightarrow> string \<Rightarrow> string" where
  "Join [] sep = []"
| "Join [x] sep = x"
| "Join (x # y # zs) sep = x @ sep @ Join (y # zs) sep"

text \<open>The format \<^verbatim>\<open>'%s'\<close>: the argument between two apostrophes.\<close>

definition quoted :: "string \<Rightarrow> string" where
  "quoted s = CHR 0x27 # s @ [CHR 0x27]"

section \<open>Tree primitives: traverse and setValue\<close>

text \<open>
  The loop of \<^verbatim>\<open>traverse\<close> over \<^verbatim>\<open>parts[:len(parts)-1]\<close>: \<open>i\<close> is the loop
  index, \<open>rest\<close> the segments still to visit. It returns the map reached, or the error
  of the failing segment.
\<close>

fun traverse_loop ::
  "string list \<Rightarrow> string \<Rightarrow> tree \<Rightarrow> nat \<Rightarrow> string list \<Rightarrow> error + tree" where
  "traverse_loop parts fullPath current i [] = Inr current"
| "traverse_loop parts fullPath current i (part # rest) =
     (case assert_map (map_index current part) of
        Some next \<Rightarrow> traverse_loop parts fullPath next (Suc i) rest
      | None \<Rightarrow>
          (let currentPath = Join (take (i + 1) parts) ''.'' in
           if map_index current part = None
           then Inl (Error (''key not found: '' @ quoted currentPath @
                            '' in path '' @ quoted fullPath))
           else Inl (Error (''value at '' @ quoted currentPath @ '' in path '' @
                            quoted fullPath @ '' is not a map, cannot traverse further''))))"

text \<open>\<^verbatim>\<open>parts[:len(parts)-1]\<close> panics on an empty slice.\<close>

definition traverse :: "tree \<Rightarrow> string list \<Rightarrow> string \<Rightarrow> error + val" where
  "traverse config parts fullPath =
     (if parts = [] then Inl (Panic ''slice bounds out of range [:-1]'')
      else
        (case traverse_loop parts fullPath config 0 (butlast parts) of
           Inl e \<Rightarrow> Inl e
         | Inr current \<Rightarrow>
             (case map_index current (last parts) of
                None \<Rightarrow> Inl (Error (''key not found: '' @ quoted (last parts) @
                                     '' in path '' @ quoted fullPath))
              | Some v \<Rightarrow> Inr v)))"

text \<open>
  \<^verbatim>\<open>setValue\<close> walks down with a pointer \<^verbatim>\<open>current\<close> and assigns in place. In the
  model each level returns its updated map, which the level above stores back under the
  segment it descended through (the map object there is the same one in the code). An
  intermediate segment that is missing or holds a non-map gets a fresh empty map,
  assigned into \<^verbatim>\<open>current\<close> before the walk goes on.
\<close>

fun setValue :: "tree \<Rightarrow> string list \<Rightarrow> val \<Rightarrow> error + tree" where
  "setValue current [] v = Inl (Panic ''slice bounds out of range [:-1]'')"
| "setValue current [lastPart] v = map_assign current lastPart v"
| "setValue current (part # rest) v =
     (case assert_map (map_index current part) of
        Some next \<Rightarrow>
          (case setValue next rest v of
             Inl e \<Rightarrow> Inl e
           | Inr next' \<Rightarrow> map_assign current part (VMap next'))
      | None \<Rightarrow>
          (case map_assign current part (VMap (Some Map.empty)) of
             Inl e \<Rightarrow> Inl e
           | Inr current' \<Rightarrow>
               (case setValue (Some Map.empty) rest v of
                  Inl e \<Rightarrow> Inl e
                | Inr next' \<Rightarrow> map_assign current' part (VMap next'))))"

section \<open>The registry\<close>

text \<open>
  A loader is called with the registry while the write lock is held, so all it can read
  through it is the process environment. It returns a tree (possibly nil) or panics.
  A panic is taken to carry a non-nil value, which is what \<^verbatim>\<open>recover()\<close> tests.
\<close>

datatype 'a outcome = Returned 'a | Panicked

type_synonym environ = "string \<Rightarrow> string option"

type_synonym loader = "environ \<Rightarrow> tree outcome"

record registry =
  configs :: "string \<Rightarrow> tree option"
  loaders :: "string \<Rightarrow> loader option"

definition lookup :: "registry \<Rightarrow> string \<Rightarrow> error + val" where
  "lookup r path =
     (let parts = Split path CHR ''.'';
          section = hd parts
      in case configs r section of
           None \<Rightarrow> Inl (Error (''config section not found: '' @ quoted section @
                                '' in path '' @ quoted path))
         | Some config \<Rightarrow>
             if config = None
             then Inl (Error (''config section is nil: '' @ quoted section @
                              '' in path '' @ quoted path))
             else if length parts = 1 then Inr (VMap config)
             else traverse config (tl parts) path)"

definition Get :: "registry \<Rightarrow> string \<Rightarrow> error + val" where
  "Get r path = (case lookup r path of Inl err \<Rightarrow> Inl err | Inr v \<Rightarrow> Inr v)"

text \<open>
  \<^verbatim>\<open>Set\<close> returns an error, or nil after mutating the section in place: \<open>Inr\<close> carries
  the registry after the call.
\<close>

definition Set :: "registry \<Rightarrow> string \<Rightarrow> val \<Rightarrow> error + registry" where
  "Set r path v =
     (let parts = Split path CHR ''.'' in
      if length parts < 2 then Inl (Error (''invalid config path: '' @ path))
      else
        (let section = hd parts in
         case configs r section of
           None \<Rightarrow> Inl (Error (''config section not found: '' @ section))
         | Some config \<Rightarrow>
             (case setValue config (tl parts) v of
                Inl e \<Rightarrow> Inl e
              | Inr config' \<Rightarrow> Inr (r\<lparr>configs := (configs r)(section \<mapsto> config')\<rparr>))))"

section \<open>Registration and refresh\<close>





section \<open>The singleton constructor\<close>

text \<open>
  The package variables: the registry the global interface value points to (\<open>None\<close> for
  the nil interface) and whether the \<^verbatim>\<open>sync.Once\<close> has fired. \<^verbatim>\<open>godotenv.Load\<close>
  is a parameter: given the file name it returns the text of its error, or \<open>None\<close>.
\<close>

record globals =
  globalConfigRegistry :: "registry option"
  globalConfigRegistryOnce :: bool

definition initial_globals :: globals where
  "initial_globals = \<lparr>globalConfigRegistry = None, globalConfigRegistryOnce = False\<rparr>"

text \<open>The function passed to \<^verbatim>\<open>Do\<close>: the value of \<^verbatim>\<open>initErr\<close> and the globals after it.\<close>

definition init_once :: "(string \<Rightarrow> string option) \<Rightarrow> string \<Rightarrow> globals \<Rightarrow> error option \<times> globals" where
  "init_once godotenv_Load env g =
     (let created = g\<lparr>globalConfigRegistry :=
                        Some \<lparr>configs = Map.empty, loaders = Map.empty\<rparr>\<rparr>
      in
      if env = [] then
        (Some (Error ''env is required when initializing config registry''), g)
      else if env = ''development'' \<or> env = ''staging'' \<or> env = ''production'' then
        (case godotenv_Load ''.env'' of
           Some err \<Rightarrow> (Some (Error (''error loading .env file: '' @ err)), g)
         | None \<Rightarrow> (None, created))
      else if env = ''testing'' then
        (case godotenv_Load ''.env.testing'' of
           Some err \<Rightarrow> (Some (Error (''error loading .env.testing file: '' @ err)), g)
         | None \<Rightarrow> (None, created))
      else (Some (Error (''invalid env: '' @ env)), g))"

text \<open>
  \<^verbatim>\<open>Once.Do(f)\<close> runs \<open>f\<close> only if the once has not fired, and has fired when it
  returns. The result is the pair the function returns (registry, error) and the
  globals after the call.
\<close>

definition GetConfigRegistry ::
  "(string \<Rightarrow> string option) \<Rightarrow> string \<Rightarrow> globals \<Rightarrow>
   (registry option \<times> error option) \<times> globals" where
  "GetConfigRegistry godotenv_Load env g =
     (let (initErr, g') =
            (if globalConfigRegistryOnce g then (None, g)
             else (let (e, g1) = init_once godotenv_Load env g
                   in (e, g1\<lparr>globalConfigRegistryOnce := True\<rparr>)))
      in if initErr \<noteq> None then ((None, initErr), g')
         else ((globalConfigRegistry g', None), g'))"

text \<open>A run of later calls, each with its own argument and dotenv behaviour.\<close>

fun GetConfigRegistry_calls ::
  "((string \<Rightarrow> string option) \<times> string) list \<Rightarrow> globals \<Rightarrow>
   (registry option \<times> error option) list \<times> globals" where
  "GetConfigRegistry_calls [] g = ([], g)"
| "GetConfigRegistry_calls ((godotenv_Load, env) # cs) g =
     (let (res, g') = GetConfigRegistry godotenv_Load env g;
          (ress, g'') = GetConfigRegistry_calls cs g'
      in (res # ress, g''))"

section \<open>The path cache\<close>





section \<open>Typed getters\<close>


text \<open>
  \<open>Sprint\<close> stands for \<^verbatim>\<open>fmt.Sprintf("%v", v)\<close>, and for \<^verbatim>\<open>v.String()\<close> when the
  value is a \<^verbatim>\<open>fmt.Stringer\<close>. \<open>type_name\<close> is what \<^verbatim>\<open>%T\<close> prints, \<open>decimal\<close>
  what \<^verbatim>\<open>%d\<close> prints for an index.
\<close>

fun type_name :: "val \<Rightarrow> string" where
  "type_name VNil = ''<nil>''"
| "type_name (VBool b) = ''bool''"
| "type_name (VInt i) = ''int''"
| "type_name (VFloat f) = ''float64''"
| "type_name (VString s) = ''string''"
| "type_name (VStrings ss) = ''[]string''"
| "type_name (VSlice vs) = ''[]interface {}''"
| "type_name (VMap m) = ''map[string]interface {}''"
| "type_name (VOther name k) = name"


text \<open>
  A variadic \<^verbatim>\<open>defaultValue ...T\<close> is the list of the arguments given; a default is
  supplied when the list is not empty. A panic of \<^verbatim>\<open>Get\<close> would pass through every
  getter untouched.
\<close>

definition GetString :: "registry \<Rightarrow> string \<Rightarrow> string list \<Rightarrow> error + string" where
  "GetString r path defaultValue =
     (case Get r path of
        Inl (Panic p) \<Rightarrow> Inl (Panic p)
      | Inl (Error err) \<Rightarrow>
          (if length defaultValue > 0 then Inr (hd defaultValue) else Inl (Error err))
      | Inr v \<Rightarrow>
          (case v of
             VString str \<Rightarrow> Inr str
           | _ \<Rightarrow> Inl (Error (''value at '' @ path @ '' is not a string''))))"






section \<open>Unmarshal: the conversion of a slice-of-string field\<close>





section \<open>The schema validator\<close>






section \<open>Predicates used to state the properties\<close>

text \<open>The map reached from \<open>current\<close> by descending through the segments \<open>pre\<close>.\<close>

fun descend :: "tree \<Rightarrow> string list \<Rightarrow> tree option" where
  "descend current [] = Some current"
| "descend current (part # rest) =
     (case assert_map (map_index current part) of
        Some next \<Rightarrow> descend next rest
      | None \<Rightarrow> None)"

text \<open>The value stored at a path, if the path leads to one.\<close>

fun fetch :: "tree \<Rightarrow> string list \<Rightarrow> val option" where
  "fetch current [] = None"
| "fetch current [lastPart] = map_index current lastPart"
| "fetch current (part # rest) =
     (case assert_map (map_index current part) of
        Some next \<Rightarrow> fetch next rest
      | None \<Rightarrow> None)"

text \<open>
  A nil map lies on a path: the tree is nil, or an intermediate segment of the path,
  reached through maps, holds a nil map.
\<close>

fun nil_on_path :: "tree \<Rightarrow> string list \<Rightarrow> bool" where
  "nil_on_path None parts = True"
| "nil_on_path (Some m) [] = False"
| "nil_on_path (Some m) [lastPart] = False"
| "nil_on_path (Some m) (part # rest) =
     (case assert_map (m part) of
        Some next \<Rightarrow> nil_on_path next rest
      | None \<Rightarrow> False)"




text \<open>
  The map in which the walk of \<^verbatim>\<open>setValue\<close> goes on below a segment: the map stored
  there, or the empty map it puts there.
\<close>

definition below :: "(string \<Rightarrow> val option) \<Rightarrow> string \<Rightarrow> tree" where
  "below f part = (case assert_map (f part) of Some next \<Rightarrow> next | None \<Rightarrow> Some Map.empty)"


section \<open>Lemmas about the tree primitives\<close>

subsection \<open>Splitting\<close>

lemma Split_not_Nil [simp]: "Split s sep \<noteq> []"
  by (induction s) (auto split: list.splits)

lemma Split_tl_not_Nil: "2 \<le> length (Split s sep) \<Longrightarrow> tl (Split s sep) \<noteq> []"
  by (cases "Split s sep") auto

subsection \<open>traverse in terms of descend and fetch\<close>

lemma traverse_loop_descend:
  "descend current pre = Some m \<Longrightarrow>
   traverse_loop parts fullPath current i (pre @ rest) =
   traverse_loop parts fullPath m (i + length pre) rest"
  by (induction pre arbitrary: current i) (auto split: option.splits)


lemma traverse_loop_cases:
  "(\<exists>m. traverse_loop parts fullPath current i pre = Inr m) \<or>
   (\<exists>msg. traverse_loop parts fullPath current i pre = Inl (Error msg))"
  by (induction pre arbitrary: current i) (auto split: option.splits simp: Let_def)



lemma traverse_cases:
  "parts \<noteq> [] \<Longrightarrow>
   (\<exists>v. traverse config parts fullPath = Inr v) \<or>
   (\<exists>msg. traverse config parts fullPath = Inl (Error msg))"
  using traverse_loop_cases[of parts fullPath config 0 "butlast parts"]
  by (auto simp: traverse_def split: option.splits)


subsection \<open>setValue\<close>

lemma nil_on_path_empty [simp]: "\<not> nil_on_path (Some Map.empty) parts"
  by (cases "(Some Map.empty :: tree, parts)" rule: nil_on_path.cases) auto

lemma setValue_cases:
  "parts \<noteq> [] \<Longrightarrow>
   (nil_on_path current parts \<and>
      setValue current parts v = Inl (Panic ''assignment to entry in nil map'')) \<or>
   (\<not> nil_on_path current parts \<and> (\<exists>m. setValue current parts v = Inr (Some m)))"
proof (induction current parts v rule: setValue.induct)
  case (1 current v)
  then show ?case by simp
next
  case (2 current lastPart v)
  then show ?case by (cases current) (auto simp: map_assign_def)
next
  case (3 current part q rest v)
  show ?case
  proof (cases current)
    case None
    then show ?thesis by (simp add: map_index_def map_assign_def)
  next
    case (Some f)
    show ?thesis
    proof (cases "assert_map (f part)")
      case None
      have a: "assert_map (map_index current part) = None"
        using None Some by (simp add: map_index_def)
      have b: "map_assign current part (VMap (Some Map.empty)) =
                 Inr (Some (f(part \<mapsto> VMap (Some Map.empty))))"
        using Some by (simp add: map_assign_def)
      obtain m where "setValue (Some Map.empty) (q # rest) v = Inr (Some m)"
        using "3.IH"(1)[OF a b] by auto
      then show ?thesis
        using None Some by (simp add: map_index_def map_assign_def)
    next
      case (Some nxt)
      with "3.IH"(2) \<open>current = Some f\<close> show ?thesis
        by (auto simp: map_index_def map_assign_def)
    qed
  qed
qed


text \<open>
  What \<^verbatim>\<open>Set\<close> can do: it returns an error only for a short path or a missing
  section, and with a section at hand it panics exactly when a nil map lies on the path.
\<close>

lemma Set_error_cases:
  "Set r path v = Inl (Error msg) \<Longrightarrow>
   length (Split path CHR ''.'') < 2 \<or> configs r (hd (Split path CHR ''.'')) = None"
proof (rule ccontr)
  assume e: "Set r path v = Inl (Error msg)"
    and "\<not> (length (Split path CHR ''.'') < 2 \<or> configs r (hd (Split path CHR ''.'')) = None)"
  then obtain config where l: "2 \<le> length (Split path CHR ''.'')"
    and c: "configs r (hd (Split path CHR ''.'')) = Some config"
    by auto
  have "tl (Split path CHR ''.'') \<noteq> []"
    using l by (rule Split_tl_not_Nil)
  from setValue_cases[OF this, of config v] show False
    using e l c by (auto simp: Set_def Let_def)
qed

lemma Set_panics_on_nil_map:
  assumes "2 \<le> length (Split path CHR ''.'')"
    and "configs r (hd (Split path CHR ''.'')) = Some config"
    and "nil_on_path config (tl (Split path CHR ''.''))"
  shows "Set r path v = Inl (Panic ''assignment to entry in nil map'')"
proof -
  have "tl (Split path CHR ''.'') \<noteq> []"
    using assms(1) by (rule Split_tl_not_Nil)
  from setValue_cases[OF this, of config v] show ?thesis
    using assms by (auto simp: Set_def Let_def)
qed

lemma Get_no_panic: "Get r path \<noteq> Inl (Panic p)"
proof -
  have "traverse config (tl (Split path CHR ''.'')) path \<noteq> Inl (Panic p)"
    if "length (Split path CHR ''.'') \<noteq> 1" for config
  proof -
    have "tl (Split path CHR ''.'') \<noteq> []"
      using that by (cases "Split path CHR ''.''") auto
    then show ?thesis
      using traverse_cases[of "tl (Split path CHR ''.'')" config path] by auto
  qed
  then show ?thesis
    by (auto simp: Get_def lookup_def Let_def split: option.splits sum.splits)
qed

lemma fetch_empty [simp]: "fetch (Some Map.empty) parts = None"
  by (cases "(Some Map.empty :: tree, parts)" rule: fetch.cases) (auto simp: map_index_def)




lemma setValue_last:
  "setValue (Some f) [part] v = Inr t \<longleftrightarrow> t = Some (f(part \<mapsto> v))"
  by (auto simp: map_assign_def)


lemma below_upd_same [simp]: "below (f(part \<mapsto> VMap n)) part = n"
  by (simp add: below_def)

lemma below_upd_other [simp]: "p \<noteq> part \<Longrightarrow> below (f(part \<mapsto> x)) p = below f p"
  by (simp add: below_def)




section \<open>Lemmas about refresh, the path cache and the singleton\<close>







lemma GetConfigRegistry_after_failure:
  assumes "globalConfigRegistryOnce g" and "globalConfigRegistry g = None"
  shows "GetConfigRegistry godotenv_Load env g = ((None, None), g)"
  using assms by (simp add: GetConfigRegistry_def)

lemma GetConfigRegistry_calls_after_failure:
  assumes "globalConfigRegistryOnce g" and "globalConfigRegistry g = None"
  shows "GetConfigRegistry_calls cs g = (replicate (length cs) (None, None), g)"
  using assms
  by (induction cs) (auto simp: GetConfigRegistry_after_failure)

section \<open>Lemmas about unmarshal and the validator\<close>






section \<open>Properties of the registry\<close>









text \<open>
  C4. Let the segments \<open>pre\<close> lead from the tree through maps to the map \<open>current\<close>.
  If the next segment \<open>p\<close> is not the last one and is absent from \<open>current\<close>,
  \<^verbatim>\<open>traverse\<close> fails with "key not found: '<prefix>' in path '<fullPath>'"; if it is
  not the last one and holds a value that is not a map, with "value at '<prefix>' in path
  '<fullPath>' is not a map, cannot traverse further"; the prefix is the segments visited
  so far, \<open>p\<close> included, joined by dots. If \<open>p\<close> is the last segment and absent, the
  message is "key not found: '<p>' in path '<fullPath>'", with the last segment alone.
\<close>

theorem traverse_error_messages:
  assumes "descend config pre = Some current"
  shows "(post \<noteq> [] \<and> map_index current p = None \<longrightarrow>
            traverse config (pre @ p # post) fullPath =
              Inl (Error (''key not found: '' @ quoted (Join (pre @ [p]) ''.'') @
                          '' in path '' @ quoted fullPath)))
       \<and> (post \<noteq> [] \<and> map_index current p = Some v \<and> assert_map (Some v) = None \<longrightarrow>
            traverse config (pre @ p # post) fullPath =
              Inl (Error (''value at '' @ quoted (Join (pre @ [p]) ''.'') @ '' in path '' @
                          quoted fullPath @ '' is not a map, cannot traverse further'')))
       \<and> (map_index current p = None \<longrightarrow>
            traverse config (pre @ [p]) fullPath =
              Inl (Error (''key not found: '' @ quoted p @ '' in path '' @ quoted fullPath)))"
proof (intro conjI impI)
  assume a: "post \<noteq> [] \<and> map_index current p = None"
  then have bl: "butlast (pre @ p # post) = pre @ (p # butlast post)"
    by (simp add: butlast_append)
  show "traverse config (pre @ p # post) fullPath =
          Inl (Error (''key not found: '' @ quoted (Join (pre @ [p]) ''.'') @
                      '' in path '' @ quoted fullPath))"
    using a assms by (simp add: traverse_def bl traverse_loop_descend)
next
  assume a: "post \<noteq> [] \<and> map_index current p = Some v \<and> assert_map (Some v) = None"
  then have bl: "butlast (pre @ p # post) = pre @ (p # butlast post)"
    by (simp add: butlast_append)
  show "traverse config (pre @ p # post) fullPath =
          Inl (Error (''value at '' @ quoted (Join (pre @ [p]) ''.'') @ '' in path '' @
                      quoted fullPath @ '' is not a map, cannot traverse further''))"
    using a assms by (simp add: traverse_def bl traverse_loop_descend)
next
  assume a: "map_index current p = None"
  show "traverse config (pre @ [p]) fullPath =
          Inl (Error (''key not found: '' @ quoted p @ '' in path '' @ quoted fullPath))"
    using a assms traverse_loop_descend[of config pre current "pre @ [p]" fullPath 0 "[]"]
    by (simp add: traverse_def)
qed

theorem traverse_error_messages_witness:
  "traverse (Some [''nested'' \<mapsto> VMap (Some [''deep'' \<mapsto> VMap (Some [''key'' \<mapsto> VString ''x''])])])
      [''nested'', ''deep'', ''invalid'', ''path''] ''test.nested.deep.invalid.path'' =
     Inl (Error (''key not found: '' @ quoted ''nested.deep.invalid'' @
                 '' in path '' @ quoted ''test.nested.deep.invalid.path''))
   \<and> traverse (Some [''nested'' \<mapsto> VMap (Some [''deep'' \<mapsto> VMap (Some [''key'' \<mapsto> VString ''x''])])])
      [''nested'', ''deep'', ''key'', ''path''] ''test.nested.deep.key.path'' =
     Inl (Error (''value at '' @ quoted ''nested.deep.key'' @ '' in path '' @
                 quoted ''test.nested.deep.key.path'' @ '' is not a map, cannot traverse further''))
   \<and> traverse (Some [''nested'' \<mapsto> VMap (Some [''deep'' \<mapsto> VMap (Some [''key'' \<mapsto> VString ''x''])])])
      [''nested'', ''deep'', ''invalid''] ''test.nested.deep.invalid'' =
     Inl (Error (''key not found: '' @ quoted ''invalid'' @
                 '' in path '' @ quoted ''test.nested.deep.invalid''))"
proof -
  let ?leaf = "Some [''key'' \<mapsto> VString ''x'']"
  let ?cfg = "Some [''nested'' \<mapsto> VMap (Some [''deep'' \<mapsto> VMap ?leaf])]"
  have h: "descend ?cfg [''nested'', ''deep''] = Some ?leaf"
    by (simp add: map_index_def)
  have a: "map_index ?leaf ''invalid'' = None"
    and b: "map_index ?leaf ''key'' = Some (VString ''x'')"
    by (simp_all add: map_index_def)
  show ?thesis
    using traverse_error_messages[OF h, where post="[''path'']" and p="''invalid''"
            and fullPath="''test.nested.deep.invalid.path''"]
          traverse_error_messages[OF h, where post="[''path'']" and p="''key''"
            and v="VString ''x''" and fullPath="''test.nested.deep.key.path''"]
          traverse_error_messages[OF h, where post="[]" and p="''invalid''"
            and fullPath="''test.nested.deep.invalid''"]
          a b
    by simp
qed







text \<open>
  C7 (amended). When \<^verbatim>\<open>Get\<close> finds a value, \<^verbatim>\<open>GetString\<close> returns it unchanged if
  it is a string, and for a value of any other type fails with "value at <p> is not a
  string", which names the path and nothing else.
\<close>

theorem GetString_result:
  "Get r path = Inr v \<Longrightarrow>
   GetString r path defaultValue =
     (case v of
        VString str \<Rightarrow> Inr str
      | _ \<Rightarrow> Inl (Error (''value at '' @ path @ '' is not a string'')))"
  by (simp add: GetString_def)

theorem GetString_result_witness:
  "GetString \<lparr>configs = [''test'' \<mapsto> Some [''string_value'' \<mapsto> VString ''test'', ''int_value'' \<mapsto> VInt 42]],
              loaders = Map.empty\<rparr> ''test.string_value'' [] = Inr ''test''
   \<and> GetString \<lparr>configs = [''test'' \<mapsto> Some [''string_value'' \<mapsto> VString ''test'', ''int_value'' \<mapsto> VInt 42]],
              loaders = Map.empty\<rparr> ''test.int_value'' [''default''] =
       Inl (Error ''value at test.int_value is not a string'')"
proof -
  let ?r = "\<lparr>configs = [''test'' \<mapsto> Some [''string_value'' \<mapsto> VString ''test'', ''int_value'' \<mapsto> VInt 42]],
              loaders = Map.empty\<rparr>"
  have s: "Get ?r ''test.string_value'' = Inr (VString ''test'')"
    by (simp add: Get_def lookup_def traverse_def map_index_def)
  have i: "Get ?r ''test.int_value'' = Inr (VInt 42)"
    by (simp add: Get_def lookup_def traverse_def map_index_def)
  show ?thesis
    using GetString_result[OF s, of "[]"] GetString_result[OF i, of "[''default'']"]
    by simp
qed

text \<open>
  On a stored int the message is not the one of the other getters ("cannot convert value
  at path '<p>' to <target>: found type <typeName>").
\<close>

theorem GetString_message_counterexample:
  "GetString \<lparr>configs = [''test'' \<mapsto> Some [''int_value'' \<mapsto> VInt 42]], loaders = Map.empty\<rparr>
       ''test.int_value'' [] = Inl (Error ''value at test.int_value is not a string'')
   \<and> GetString \<lparr>configs = [''test'' \<mapsto> Some [''int_value'' \<mapsto> VInt 42]], loaders = Map.empty\<rparr>
       ''test.int_value'' [] \<noteq>
     Inl (Error (''cannot convert value at path '' @ quoted ''test.int_value'' @
                 '' to string: found type '' @ type_name (VInt 42)))"
  by (simp add: GetString_def Get_def lookup_def traverse_def map_index_def quoted_def)



text \<open>
  C9. If the first call of \<^verbatim>\<open>GetConfigRegistry\<close> returns an error, it returns a nil
  registry with it, and every later call, whatever its argument and whatever the dotenv
  loader would do, returns a nil registry and a nil error and changes nothing.
\<close>

theorem failed_initialization_is_final:
  assumes "GetConfigRegistry godotenv_Load env initial_globals = ((reg, Some err), g)"
  shows "reg = None
       \<and> (\<forall>godotenv_Load' env'. GetConfigRegistry godotenv_Load' env' g = ((None, None), g))
       \<and> (\<forall>cs. fst (GetConfigRegistry_calls cs g) = replicate (length cs) (None, None))"
proof -
  have g: "globalConfigRegistryOnce g \<and> globalConfigRegistry g = None \<and> reg = None"
    using assms
    by (auto simp: GetConfigRegistry_def initial_globals_def init_once_def Let_def
             split: if_splits option.splits prod.splits)
  then show ?thesis
    by (simp add: GetConfigRegistry_after_failure GetConfigRegistry_calls_after_failure)
qed

theorem failed_initialization_is_final_witness:
  "GetConfigRegistry (\<lambda>file. None) ''prod'' initial_globals =
     ((None, Some (Error ''invalid env: prod'')),
      \<lparr>globalConfigRegistry = None, globalConfigRegistryOnce = True\<rparr>)
   \<and> GetConfigRegistry (\<lambda>file. None) ''testing''
        \<lparr>globalConfigRegistry = None, globalConfigRegistryOnce = True\<rparr> =
     ((None, None), \<lparr>globalConfigRegistry = None, globalConfigRegistryOnce = True\<rparr>)"
proof -
  have first: "GetConfigRegistry (\<lambda>file. None) ''prod'' initial_globals =
     ((None, Some (Error ''invalid env: prod'')),
      \<lparr>globalConfigRegistry = None, globalConfigRegistryOnce = True\<rparr>)"
    by (simp add: GetConfigRegistry_def init_once_def initial_globals_def)
  from failed_initialization_is_final[OF first]
  have "GetConfigRegistry (\<lambda>file. None) ''testing''
        \<lparr>globalConfigRegistry = None, globalConfigRegistryOnce = True\<rparr> =
     ((None, None), \<lparr>globalConfigRegistry = None, globalConfigRegistryOnce = True\<rparr>)"
    by blast
  with first show ?thesis by simp
qed

text \<open>
  C10. A section stored as a non-nil tree whose key \<open>options\<close> holds a nil map:
  \<^verbatim>\<open>Set("app.options.debug", true)\<close> does not return; the assignment in
  \<^verbatim>\<open>setValue\<close> panics.
\<close>

theorem Set_nested_nil_map_panics:
  "Set \<lparr>configs = [''app'' \<mapsto> Some [''options'' \<mapsto> VMap None]], loaders = Map.empty\<rparr>
       ''app.options.debug'' (VBool True) =
     Inl (Panic ''assignment to entry in nil map'')"
  by (simp add: Set_def map_assign_def map_index_def)

end
